theory Spec2Isabelle
  imports Main
begin

section \<open>The worker launcher of \<open>module_worker_start.js\<close>\<close>

text \<open>
  The module under study:
  \<^verbatim>\<open>
  let _worker;
  export function startWorker() {
    const worker = new Worker(
      new URL('./web_worker_module.js', import.meta.url),
      { type: 'module', name: 'wasm_thread' }
    );
    _worker = worker;
    return worker;
  }
  \<close>
  It consists of one module-level variable and one exported function. The function calls
  two constructors of the host (\<open>URL\<close> and \<open>Worker\<close>), which are not part of the module;
  the host is therefore a parameter of the model, and the object store in which
  \<open>new Worker\<close> allocates is explicit, since several properties are about the identity
  of the objects returned.
\<close>

subsection \<open>Values, objects and the host\<close>

type_synonym ref = nat \<comment> \<open>the identity of an object: its address in the store\<close>

datatype js_value = Undefined | Null | Object ref

text \<open>The object literal \<open>{ type: ..., name: ... }\<close> given to the \<open>Worker\<close> constructor.\<close>

record worker_options =
  type :: string
  name :: string

text \<open>
  A worker object, as the host keeps it: the script it runs, the options it was made
  with, and whether it has been terminated. A new worker is not terminated.
\<close>

record 'u worker_object =
  scriptURL :: 'u
  options :: worker_options
  terminated :: bool

text \<open>
  The state of the host: the store of worker objects (the object with reference \<open>r\<close> is
  the \<open>r\<close>-th element, so a reference is allocated exactly when it is below the length of
  the store) and the list of all invocations of the \<open>Worker\<close> constructor so far, each
  with the arguments that it received, whether it succeeded or not.
\<close>

record 'u platform =
  heap :: "'u worker_object list"
  requests :: "('u \<times> worker_options) list"

text \<open>
  What the host decides: \<open>URL_new path base\<close> is \<open>new URL(path, base)\<close>, which throws or
  gives a URL; \<open>Worker_refuses p u opts\<close> is the failure that \<open>new Worker(u, opts)\<close>
  throws in the host state \<open>p\<close>, if it throws.
\<close>

record ('e, 'u) host =
  URL_new :: "string \<Rightarrow> string \<Rightarrow> 'e + 'u"
  Worker_refuses :: "'u platform \<Rightarrow> 'u \<Rightarrow> worker_options \<Rightarrow> 'e option"

text \<open>
  \<open>new Worker(u, opts)\<close>: the invocation is recorded; then either the constructor throws
  and nothing is allocated, or a new object is allocated at the next free reference and
  the expression evaluates to that reference.
\<close>

definition new_Worker ::
    "('e, 'u) host \<Rightarrow> 'u \<Rightarrow> worker_options \<Rightarrow> 'u platform \<Rightarrow> ('e + js_value) \<times> 'u platform" where
  "new_Worker h u opts p =
     (let p1 = p\<lparr>requests := requests p @ [(u, opts)]\<rparr> in
      case Worker_refuses h p u opts of
        Some e \<Rightarrow> (Inl e, p1)
      | None \<Rightarrow>
          (Inr (Object (length (heap p))),
           p1\<lparr>heap := heap p @ [\<lparr>scriptURL = u, options = opts, terminated = False\<rparr>]\<rparr>))"

subsection \<open>The module\<close>

text \<open>
  The variables of the program. \<open>worker_var\<close> is the module-level \<open>_worker\<close> (a name
  cannot begin with an underscore here). The record is extensible: the extension stands
  for every other variable of the program that contains the module.
\<close>

record module_state =
  worker_var :: js_value

text \<open>\<open>let _worker;\<close> leaves the variable undefined when the module is loaded.\<close>

definition module_init :: module_state where
  "module_init = \<lparr>worker_var = Undefined\<rparr>"

text \<open>
  A call of the function, as the caller determines it: the location of the calling
  module and the actual arguments. The function declares no parameter, and
  \<open>import.meta.url\<close> in its body is the location of the module that contains the
  function, which is the parameter \<open>meta_url\<close> below.
\<close>

record call_site =
  caller_url :: string
  arguments :: "js_value list"

definition startWorker ::
    "('e, 'u) host \<Rightarrow> string \<Rightarrow> call_site \<Rightarrow> 'u platform \<times> 'a module_state_scheme
       \<Rightarrow> ('e + js_value) \<times> ('u platform \<times> 'a module_state_scheme)" where
  "startWorker h meta_url site s =
     (case s of (p, m) \<Rightarrow>
        (case URL_new h ''./web_worker_module.js'' meta_url of
           Inl e \<Rightarrow> (Inl e, (p, m))
         | Inr u \<Rightarrow>
             (case new_Worker h u \<lparr>type = ''module'', name = ''wasm_thread''\<rparr> p of
                (Inl e, p1) \<Rightarrow> (Inl e, (p1, m))
              | (Inr worker, p1) \<Rightarrow> (Inr worker, (p1, m\<lparr>worker_var := worker\<rparr>)))))"

subsection \<open>The interface of the module\<close>

text \<open>
  What another module obtains by importing the name \<open>x\<close> from this one. The only
  \<open>export\<close> of the module is the function declaration; \<open>_worker\<close> is declared by a plain
  \<open>let\<close>, and importing a name that a module does not export fails when the modules
  are linked.
\<close>

definition import_binding ::
    "('e, 'u) host \<Rightarrow> string \<Rightarrow> string
       \<Rightarrow> (call_site \<Rightarrow> 'u platform \<times> 'a module_state_scheme
            \<Rightarrow> ('e + js_value) \<times> ('u platform \<times> 'a module_state_scheme)) option" where
  "import_binding h meta_url x =
     (if x = ''startWorker'' then Some (startWorker h meta_url) else None)"

subsection \<open>Sequences of calls\<close>

text \<open>
  The module offers one operation, so the life of the module after loading is a sequence
  of calls of \<open>startWorker\<close>, each from some call site, each starting in the state in which
  the previous one ended. \<open>run\<close> gives the outcome of every call and the final state.
\<close>

fun run ::
    "('e, 'u) host \<Rightarrow> string \<Rightarrow> call_site list \<Rightarrow> 'u platform \<times> 'a module_state_scheme
       \<Rightarrow> ('e + js_value) list \<times> ('u platform \<times> 'a module_state_scheme)" where
  "run h meta_url [] s = ([], s)"
| "run h meta_url (site # sites) s =
     (case startWorker h meta_url site s of
        (r, s1) \<Rightarrow> (case run h meta_url sites s1 of (rs, s2) \<Rightarrow> (r # rs, s2)))"

subsection \<open>Sample hosts\<close>

text \<open>
  Concrete hosts on which the theorems below are exercised. URLs and failures are
  strings. \<open>sample_URL_new\<close> resolves a path of the form \<open>./name\<close> against the directory
  of the base, and throws on any other path and on a base without a directory.
\<close>

definition directory :: "string \<Rightarrow> string" where
  "directory base = rev (dropWhile (\<lambda>c. c \<noteq> CHR ''/'') (rev base))"

definition sample_URL_new :: "string \<Rightarrow> string \<Rightarrow> string + string" where
  "sample_URL_new path base =
     (if take 2 path = ''./'' \<and> directory base \<noteq> []
      then Inr (directory base @ drop 2 path) else Inl ''TypeError'')"

definition willing_host :: "(string, string) host" where
  "willing_host = \<lparr>URL_new = sample_URL_new, Worker_refuses = (\<lambda>p u opts. None)\<rparr>"

definition refusing_host :: "(string, string) host" where
  "refusing_host =
     \<lparr>URL_new = sample_URL_new, Worker_refuses = (\<lambda>p u opts. Some ''SecurityError'')\<rparr>"

text \<open>A host that allows two workers and refuses any further one.\<close>

definition bounded_host :: "(string, string) host" where
  "bounded_host =
     \<lparr>URL_new = sample_URL_new,
      Worker_refuses = (\<lambda>p u opts. if length (heap p) < 2 then None else Some ''QuotaExceededError'')\<rparr>"

definition platform0 :: "string platform" where
  "platform0 = \<lparr>heap = [], requests = []\<rparr>"

definition own_url :: string where
  "own_url = ''https://app.example/pkg/module_worker_start.js''"

definition site_a :: call_site where
  "site_a = \<lparr>caller_url = ''https://app.example/main.js'', arguments = []\<rparr>"

definition site_b :: call_site where
  "site_b = \<lparr>caller_url = ''https://cdn.example/lib/pool.js'', arguments = [Null, Object 7]\<rparr>"

text \<open>
  The states of the sample hosts after one and after two workers, after a refused
  invocation, and after two workers and a refused invocation.
\<close>

definition sample_request :: "string \<times> worker_options" where
  "sample_request =
     (''https://app.example/pkg/web_worker_module.js'',
      \<lparr>type = ''module'', name = ''wasm_thread''\<rparr>)"

definition sample_worker :: "string worker_object" where
  "sample_worker =
     \<lparr>scriptURL = ''https://app.example/pkg/web_worker_module.js'',
      options = \<lparr>type = ''module'', name = ''wasm_thread''\<rparr>, terminated = False\<rparr>"

definition platform1 :: "string platform" where
  "platform1 = \<lparr>heap = [sample_worker], requests = [sample_request]\<rparr>"

definition platform2 :: "string platform" where
  "platform2 =
     \<lparr>heap = [sample_worker, sample_worker], requests = [sample_request, sample_request]\<rparr>"

definition platform_refused :: "string platform" where
  "platform_refused = \<lparr>heap = [], requests = [sample_request]\<rparr>"

definition platform3 :: "string platform" where
  "platform3 =
     \<lparr>heap = [sample_worker, sample_worker],
      requests = [sample_request, sample_request, sample_request]\<rparr>"

section \<open>Properties\<close>

subsection \<open>The three outcomes of a call\<close>

text \<open>
  A call ends in one of three ways: \<open>new URL\<close> throws; \<open>new Worker\<close> throws; or the
  worker is made, stored and returned.
\<close>

lemma startWorker_outcome:
  "startWorker h meta_url site (p, m) =
     (case URL_new h ''./web_worker_module.js'' meta_url of
        Inl e \<Rightarrow> (Inl e, (p, m))
      | Inr u \<Rightarrow>
          (case Worker_refuses h p u \<lparr>type = ''module'', name = ''wasm_thread''\<rparr> of
             Some e \<Rightarrow>
               (Inl e,
                (p\<lparr>requests := requests p @ [(u, \<lparr>type = ''module'', name = ''wasm_thread''\<rparr>)]\<rparr>, m))
           | None \<Rightarrow>
               (Inr (Object (length (heap p))),
                (p\<lparr>requests := requests p @ [(u, \<lparr>type = ''module'', name = ''wasm_thread''\<rparr>)],
                   heap := heap p @ [\<lparr>scriptURL = u,
                                       options = \<lparr>type = ''module'', name = ''wasm_thread''\<rparr>,
                                       terminated = False\<rparr>]\<rparr>,
                 m\<lparr>worker_var := Object (length (heap p))\<rparr>))))"
  by (simp add: startWorker_def new_Worker_def Let_def split: sum.split option.split)

lemma startWorker_returned:
  assumes "startWorker h meta_url site (p, m) = (Inr w, (p', m'))"
  shows "w = Object (length (heap p))" and "m' = m\<lparr>worker_var := w\<rparr>"
    and "length (heap p') = Suc (length (heap p))"
    and "take (length (heap p)) (heap p') = heap p"
  using assms by (auto simp: startWorker_outcome split: sum.splits option.splits)

lemma startWorker_failed:
  assumes "startWorker h meta_url site (p, m) = (Inl e, (p', m'))"
  shows "m' = m" and "heap p' = heap p"
  using assms by (auto simp: startWorker_outcome split: sum.splits option.splits)

text \<open>
  The invocations of the \<open>Worker\<close> constructor that a call, and a sequence of calls,
  adds to those made before; and the value of the module variable after a sequence of
  calls.
\<close>

lemma startWorker_requests:
  "requests (fst (snd (startWorker h meta_url site (p, m)))) =
     requests p @
       (case URL_new h ''./web_worker_module.js'' meta_url of
          Inl e \<Rightarrow> []
        | Inr u \<Rightarrow> [(u, \<lparr>type = ''module'', name = ''wasm_thread''\<rparr>)])"
  by (simp add: startWorker_outcome split: sum.split option.split)

lemma run_requests:
  "requests (fst (snd (run h meta_url sites (p, m)))) =
     requests p @
       (case URL_new h ''./web_worker_module.js'' meta_url of
          Inl e \<Rightarrow> []
        | Inr u \<Rightarrow> replicate (length sites) (u, \<lparr>type = ''module'', name = ''wasm_thread''\<rparr>))"
proof (induction sites arbitrary: p m)
  case Nil
  then show ?case by (simp split: sum.split)
next
  case (Cons site sites)
  obtain r p1 m1 where step: "startWorker h meta_url site (p, m) = (r, (p1, m1))"
    by (metis surj_pair)
  have "requests p1 =
     requests p @
       (case URL_new h ''./web_worker_module.js'' meta_url of
          Inl e \<Rightarrow> []
        | Inr u \<Rightarrow> [(u, \<lparr>type = ''module'', name = ''wasm_thread''\<rparr>)])"
    using startWorker_requests [of h meta_url site p m] step by simp
  then show ?case
    using Cons.IH [of p1 m1] step by (auto split: prod.splits sum.splits)
qed

lemma run_state:
  assumes "run h meta_url sites (p, m) = (rs, (p', m'))"
  shows "length rs = length sites \<and>
     (if \<forall>r\<in>set rs. isl r then m' = m
      else \<exists>k. last (filter (\<lambda>r. \<not> isl r) rs) = Inr (Object k) \<and> m' = m\<lparr>worker_var := Object k\<rparr>)"
  using assms
proof (induction sites arbitrary: p m rs)
  case Nil
  then show ?case by auto
next
  case (Cons site sites)
  obtain r p1 m1 where step: "startWorker h meta_url site (p, m) = (r, (p1, m1))"
    by (metis surj_pair)
  obtain rs1 where rest: "run h meta_url sites (p1, m1) = (rs1, (p', m'))" and rs: "rs = r # rs1"
    using Cons.prems step by (auto split: prod.splits)
  have len: "length rs1 = length sites"
    using Cons.IH [OF rest] by simp
  have quiet: "m' = m1" if "\<forall>r\<in>set rs1. isl r"
    using Cons.IH [OF rest] that by simp
  have loud: "\<exists>k. last (filter (\<lambda>r. \<not> isl r) rs1) = Inr (Object k) \<and> m' = m1\<lparr>worker_var := Object k\<rparr>"
    if "\<not> (\<forall>r\<in>set rs1. isl r)"
    using Cons.IH [OF rest] that by (simp split: if_splits)
  show ?case
  proof (cases "\<forall>r\<in>set rs1. isl r")
    case True
    then have none: "filter (\<lambda>r. \<not> isl r) rs1 = []"
      by (simp add: filter_empty_conv)
    show ?thesis
    proof (cases r)
      case (Inl e)
      with step have "startWorker h meta_url site (p, m) = (Inl e, (p1, m1))" by simp
      then have "m1 = m" by (rule startWorker_failed(1))
      then show ?thesis using quiet [OF True] True rs Inl len by simp
    next
      case (Inr w)
      with step have call: "startWorker h meta_url site (p, m) = (Inr w, (p1, m1))" by simp
      have "w = Object (length (heap p))" and "m1 = m\<lparr>worker_var := w\<rparr>"
        using startWorker_returned(1,2) [OF call] by simp_all
      then show ?thesis using quiet [OF True] none rs Inr len by simp
    qed
  next
    case False
    then have some: "filter (\<lambda>r. \<not> isl r) rs1 \<noteq> []"
      by (simp add: filter_empty_conv)
    obtain k where k: "last (filter (\<lambda>r. \<not> isl r) rs1) = Inr (Object k)"
      and m': "m' = m1\<lparr>worker_var := Object k\<rparr>"
      using loud [OF False] by blast
    have noisy: "\<not> (\<forall>r\<in>set rs. isl r)"
      using False rs by simp
    have last_eq: "last (filter (\<lambda>r. \<not> isl r) rs) = Inr (Object k)"
      using some k rs by simp
    have "m' = m\<lparr>worker_var := Object k\<rparr>"
    proof (cases r)
      case (Inl e)
      with step have "startWorker h meta_url site (p, m) = (Inl e, (p1, m1))" by simp
      then have "m1 = m" by (rule startWorker_failed(1))
      then show ?thesis using m' by simp
    next
      case (Inr w)
      with step have call: "startWorker h meta_url site (p, m) = (Inr w, (p1, m1))" by simp
      have "m1 = m\<lparr>worker_var := w\<rparr>"
        using startWorker_returned(2) [OF call] .
      then show ?thesis using m' by simp
    qed
    then show ?thesis using noisy last_eq len rs by auto
  qed
qed

subsection \<open>Calls on the sample hosts\<close>

lemmas sample_states =
  platform0_def platform1_def platform2_def platform3_def platform_refused_def sample_request_def
  sample_worker_def module_init_def

lemma sample_url:
  "sample_URL_new ''./web_worker_module.js'' own_url =
     Inr ''https://app.example/pkg/web_worker_module.js''"
  by (simp add: sample_URL_new_def directory_def own_url_def)

lemma willing_first:
  "startWorker willing_host own_url site_a (platform0, module_init) =
     (Inr (Object 0), (platform1, \<lparr>worker_var = Object 0\<rparr>))"
  by (simp add: startWorker_outcome willing_host_def sample_url sample_states)

lemma willing_second:
  "startWorker willing_host own_url site_b (platform1, \<lparr>worker_var = Object 0\<rparr>) =
     (Inr (Object 1), (platform2, \<lparr>worker_var = Object 1\<rparr>))"
  by (simp add: startWorker_outcome willing_host_def sample_url sample_states)

lemma refusing_URL_new:
  "URL_new refusing_host ''./web_worker_module.js'' own_url =
     Inr ''https://app.example/pkg/web_worker_module.js''"
  by (simp add: refusing_host_def sample_url)

lemma refusing_new_Worker:
  "new_Worker refusing_host ''https://app.example/pkg/web_worker_module.js''
      \<lparr>type = ''module'', name = ''wasm_thread''\<rparr> platform0 =
     (Inl ''SecurityError'', platform_refused)"
  by (simp add: new_Worker_def refusing_host_def sample_states)

lemma willing_first_b:
  "startWorker willing_host own_url site_b (platform0, module_init) =
     (Inr (Object 0), (platform1, \<lparr>worker_var = Object 0\<rparr>))"
  by (simp add: startWorker_outcome willing_host_def sample_url sample_states)

lemma caller_relative_url:
  "sample_URL_new ''./web_worker_module.js'' (caller_url site_b) =
     Inr ''https://cdn.example/lib/web_worker_module.js''"
  by (simp add: sample_URL_new_def directory_def site_b_def)

lemma bounded_run:
  "run bounded_host own_url [site_a, site_b, site_a] (platform0, module_init) =
     ([Inr (Object 0), Inr (Object 1), Inl ''QuotaExceededError''],
      (platform3, \<lparr>worker_var = Object 1\<rparr>))"
  by (simp add: startWorker_outcome bounded_host_def sample_url sample_states)

lemma willing_first_extended:
  "startWorker willing_host own_url site_a (platform0, \<lparr>worker_var = Null, \<dots> = (42::nat)\<rparr>) =
     (Inr (Object 0), (platform1, \<lparr>worker_var = Object 0, \<dots> = (42::nat)\<rparr>))"
  by (simp add: startWorker_outcome willing_host_def sample_url sample_states)

lemma willing_URL_new:
  "URL_new willing_host ''./web_worker_module.js'' own_url =
     Inr ''https://app.example/pkg/web_worker_module.js''"
  by (simp add: willing_host_def sample_url)

lemma bounded_URL_new:
  "URL_new bounded_host ''./web_worker_module.js'' own_url =
     Inr ''https://app.example/pkg/web_worker_module.js''"
  by (simp add: bounded_host_def sample_url)

lemma nowhere_URL_new:
  "URL_new willing_host ''./web_worker_module.js'' ''nowhere'' = Inl ''TypeError''"
  by (simp add: willing_host_def sample_URL_new_def directory_def)

lemma willing_accepts:
  "Worker_refuses willing_host platform0 u opts = None"
  by (simp add: willing_host_def)

lemma bounded_refuses:
  "Worker_refuses bounded_host platform2 u opts = Some ''QuotaExceededError''"
  by (simp add: bounded_host_def sample_states)

subsection \<open>A successful call\<close>

text \<open>
  Claim C1. Whenever a call of \<open>startWorker\<close> returns, the value returned is a reference
  to an allocated worker object (so it is neither \<open>null\<close> nor \<open>undefined\<close>), and in the
  state in which the call returns the module variable holds that same reference: the
  store has taken place when the caller gets the handle.
\<close>

theorem startWorker_returns_stored_handle:
  assumes "startWorker h meta_url site (p, m) = (Inr w, (p', m'))"
  shows "w \<noteq> Null \<and> w \<noteq> Undefined \<and> (\<exists>r. w = Object r \<and> r < length (heap p'))
           \<and> worker_var m' = w"
  using startWorker_returned [OF assms] by auto

theorem startWorker_returns_stored_handle_witness:
  "startWorker willing_host own_url site_a (platform0, module_init) =
     (Inr (Object 0), (platform1, \<lparr>worker_var = Object 0\<rparr>))
   \<and> Object 0 \<noteq> Null \<and> Object 0 \<noteq> Undefined \<and> 0 < length (heap platform1)
   \<and> worker_var \<lparr>worker_var = Object 0\<rparr> = Object 0"
  using startWorker_returns_stored_handle [OF willing_first] willing_first by simp

subsection \<open>A call in which the constructor throws\<close>

text \<open>
  Claim C2. Whenever the \<open>Worker\<close> constructor, invoked by \<open>startWorker\<close>, throws a
  failure \<open>e\<close>, the call of \<open>startWorker\<close> throws that same \<open>e\<close>, and it ends in the state
  in which the constructor left the host, with every variable of the program, the
  stored handle among them, as before the call. The constructor has been invoked once
  (nothing is retried) and no object has been allocated.
\<close>

theorem spawn_failure_propagates:
  assumes "URL_new h ''./web_worker_module.js'' meta_url = Inr u"
    and "new_Worker h u \<lparr>type = ''module'', name = ''wasm_thread''\<rparr> p = (Inl e, p1)"
  shows "startWorker h meta_url site (p, m) = (Inl e, (p1, m))
       \<and> requests p1 = requests p @ [(u, \<lparr>type = ''module'', name = ''wasm_thread''\<rparr>)]
       \<and> heap p1 = heap p"
  using assms
  by (auto simp: startWorker_def new_Worker_def Let_def split: option.splits)

theorem spawn_failure_propagates_witness:
  "URL_new refusing_host ''./web_worker_module.js'' own_url =
     Inr ''https://app.example/pkg/web_worker_module.js''
   \<and> new_Worker refusing_host ''https://app.example/pkg/web_worker_module.js''
        \<lparr>type = ''module'', name = ''wasm_thread''\<rparr> platform0 =
     (Inl ''SecurityError'', platform_refused)
   \<and> startWorker refusing_host own_url site_a (platform0, module_init) =
     (Inl ''SecurityError'', (platform_refused, module_init))
   \<and> worker_var module_init = Undefined"
  using spawn_failure_propagates [OF refusing_URL_new refusing_new_Worker, of site_a module_init]
    refusing_URL_new refusing_new_Worker
  by (simp add: module_init_def)

subsection \<open>Two calls in a row\<close>

text \<open>
  Claim C3. When two calls in a row both return, the first returning \<open>w1\<close> and the second
  \<open>w2\<close>, the module variable holds \<open>w1\<close> after the first call and \<open>w2\<close> after the second,
  and what it holds after the second is not \<open>w1\<close>. The value stored before the first
  call is arbitrary: the store does not depend on it.
\<close>

theorem second_call_overwrites:
  assumes "startWorker h meta_url site1 (p0, m0) = (Inr w1, (p1, m1))"
    and "startWorker h meta_url site2 (p1, m1) = (Inr w2, (p2, m2))"
  shows "worker_var m1 = w1 \<and> worker_var m2 = w2 \<and> worker_var m2 \<noteq> w1"
  using startWorker_returned [OF assms(1)] startWorker_returned [OF assms(2)] by auto

theorem second_call_overwrites_witness:
  "startWorker willing_host own_url site_a (platform0, module_init) =
     (Inr (Object 0), (platform1, \<lparr>worker_var = Object 0\<rparr>))
   \<and> startWorker willing_host own_url site_b (platform1, \<lparr>worker_var = Object 0\<rparr>) =
     (Inr (Object 1), (platform2, \<lparr>worker_var = Object 1\<rparr>))
   \<and> worker_var \<lparr>worker_var = Object 1\<rparr> = Object 1
   \<and> worker_var \<lparr>worker_var = Object 1\<rparr> \<noteq> Object 0"
  using second_call_overwrites [OF willing_first willing_second] willing_first willing_second
  by simp

subsection \<open>The arguments of the constructor\<close>

text \<open>
  Claim C4. In every call of \<open>startWorker\<close>, from whatever call site, each invocation of
  the \<open>Worker\<close> constructor that the call adds has as its location the URL that
  \<open>new URL\<close> makes of the fixed relative path and the module's own \<open>import.meta.url\<close>.
  Where resolving against the location of the caller gives something else, that is not
  the location requested; and a call from any other call site requests the same.
\<close>

theorem script_resolved_against_own_url:
  assumes "startWorker h meta_url site (p, m) = (r, (p', m'))"
  shows "take (length (requests p)) (requests p') = requests p
       \<and> (\<forall>(u, opts) \<in> set (drop (length (requests p)) (requests p')).
            URL_new h ''./web_worker_module.js'' meta_url = Inr u
            \<and> (URL_new h ''./web_worker_module.js'' (caller_url site)
                 \<noteq> URL_new h ''./web_worker_module.js'' meta_url
               \<longrightarrow> URL_new h ''./web_worker_module.js'' (caller_url site) \<noteq> Inr u))
       \<and> requests (fst (snd (startWorker h meta_url site' (p, m)))) = requests p'"
  using startWorker_requests [of h meta_url site p m]
    startWorker_requests [of h meta_url site' p m] assms
  by (auto split: sum.splits)

theorem script_resolved_against_own_url_witness:
  "startWorker willing_host own_url site_b (platform0, module_init) =
     (Inr (Object 0), (platform1, \<lparr>worker_var = Object 0\<rparr>))
   \<and> drop (length (requests platform0)) (requests platform1) =
       [(''https://app.example/pkg/web_worker_module.js'',
         \<lparr>type = ''module'', name = ''wasm_thread''\<rparr>)]
   \<and> URL_new willing_host ''./web_worker_module.js'' own_url =
       Inr ''https://app.example/pkg/web_worker_module.js''
   \<and> URL_new willing_host ''./web_worker_module.js'' (caller_url site_b) =
       Inr ''https://cdn.example/lib/web_worker_module.js''
   \<and> requests (fst (snd (startWorker willing_host own_url site_a (platform0, module_init)))) =
       requests platform1"
  using script_resolved_against_own_url [OF willing_first_b, of site_a] willing_first_b
    caller_relative_url
  by (simp add: sample_states willing_host_def sample_url)

text \<open>
  Claim C5. Over any sequence of calls, the options that the \<open>Worker\<close> constructor
  receives are the same fixed record in every invocation, with \<open>type\<close> \<open>module\<close> and
  \<open>name\<close> \<open>wasm_thread\<close>; there is one invocation for each call (and none at all where
  \<open>new URL\<close> throws).
\<close>

theorem worker_options_fixed:
  assumes "run h meta_url sites (p, m) = (rs, (p', m'))"
  shows "map snd (requests p') =
     map snd (requests p) @
       replicate (if isl (URL_new h ''./web_worker_module.js'' meta_url) then 0 else length sites)
         \<lparr>type = ''module'', name = ''wasm_thread''\<rparr>"
  using run_requests [of h meta_url sites p m] assms
  by (auto split: sum.splits)

theorem worker_options_fixed_witness:
  "run bounded_host own_url [site_a, site_b, site_a] (platform0, module_init) =
     ([Inr (Object 0), Inr (Object 1), Inl ''QuotaExceededError''],
      (platform3, \<lparr>worker_var = Object 1\<rparr>))
   \<and> map snd (requests platform3) =
       [\<lparr>type = ''module'', name = ''wasm_thread''\<rparr>,
        \<lparr>type = ''module'', name = ''wasm_thread''\<rparr>,
        \<lparr>type = ''module'', name = ''wasm_thread''\<rparr>]"
  using worker_options_fixed [OF bounded_run] bounded_run
  by (simp add: sample_states)

subsection \<open>One new worker for each call\<close>

text \<open>
  Claim C6. Every call that returns has allocated exactly one worker object, made with
  the resolved location and the fixed options and not terminated, leaving the objects
  allocated before as they were; it has invoked the constructor once; and what it
  returns and stores is the reference of the new object, which was not allocated before
  the call. In particular, whenever the next call returns too, its handle is different
  from this one, the module variable holds it, and two objects have been allocated.
\<close>

theorem each_call_spawns_fresh_worker:
  assumes "startWorker h meta_url site (p, m) = (Inr w, (p', m'))"
  shows "(\<exists>u. URL_new h ''./web_worker_module.js'' meta_url = Inr u
            \<and> heap p' = heap p @ [\<lparr>scriptURL = u,
                                     options = \<lparr>type = ''module'', name = ''wasm_thread''\<rparr>,
                                     terminated = False\<rparr>]
            \<and> requests p' = requests p @ [(u, \<lparr>type = ''module'', name = ''wasm_thread''\<rparr>)])
       \<and> length (heap p') = Suc (length (heap p))
       \<and> take (length (heap p)) (heap p') = heap p
       \<and> length (requests p') = Suc (length (requests p))
       \<and> w = Object (length (heap p))
       \<and> worker_var m' = w
       \<and> (\<forall>site2 w2 p2 m2.
             startWorker h meta_url site2 (p', m') = (Inr w2, (p2, m2))
             \<longrightarrow> w2 \<noteq> w \<and> worker_var m2 = w2 \<and> length (heap p2) = Suc (Suc (length (heap p))))"
proof -
  have new: "\<exists>u. URL_new h ''./web_worker_module.js'' meta_url = Inr u
            \<and> heap p' = heap p @ [\<lparr>scriptURL = u,
                                     options = \<lparr>type = ''module'', name = ''wasm_thread''\<rparr>,
                                     terminated = False\<rparr>]
            \<and> requests p' = requests p @ [(u, \<lparr>type = ''module'', name = ''wasm_thread''\<rparr>)]"
    using assms by (auto simp: startWorker_outcome split: sum.splits option.splits)
  have w: "w = Object (length (heap p))" and m': "m' = m\<lparr>worker_var := w\<rparr>"
    using startWorker_returned(1,2) [OF assms] by simp_all
  have next_call:
    "w2 \<noteq> w \<and> worker_var m2 = w2 \<and> length (heap p2) = Suc (Suc (length (heap p)))"
    if "startWorker h meta_url site2 (p', m') = (Inr w2, (p2, m2))" for site2 w2 p2 m2
    using startWorker_returned [OF that] startWorker_returned(3) [OF assms] w by simp
  show ?thesis
    using new w m' next_call by auto
qed

theorem each_call_spawns_fresh_worker_witness:
  "startWorker willing_host own_url site_a (platform0, module_init) =
     (Inr (Object 0), (platform1, \<lparr>worker_var = Object 0\<rparr>))
   \<and> heap platform1 = heap platform0 @ [sample_worker]
   \<and> requests platform1 = requests platform0 @ [sample_request]
   \<and> length (heap platform0) = 0 \<and> length (heap platform1) = 1
   \<and> worker_var \<lparr>worker_var = Object 0\<rparr> = Object 0
   \<and> startWorker willing_host own_url site_b (platform1, \<lparr>worker_var = Object 0\<rparr>) =
     (Inr (Object 1), (platform2, \<lparr>worker_var = Object 1\<rparr>))
   \<and> Object 1 \<noteq> Object 0
   \<and> worker_var \<lparr>worker_var = Object 1\<rparr> = Object 1
   \<and> length (heap platform2) = 2"
  using each_call_spawns_fresh_worker [OF willing_first] willing_first willing_second
  by (simp add: sample_states)

subsection \<open>The module variable over the life of the module\<close>

text \<open>
  Claim C7, as amended. Over any sequence of calls after the module is loaded, every
  call has an outcome, and the module variable is in one of two states: it is
  \<open>undefined\<close> exactly as long as no call has returned, and otherwise it holds a worker
  handle, namely the one returned by the most recent call that returned. So a call that
  returns enters the second state and replaces the handle, and a call that throws
  leaves the state as it was.
\<close>

theorem remembered_handle_machine:
  assumes "run h meta_url sites (p, module_init) = (rs, (p', m'))"
  shows "length rs = length sites \<and>
     (if \<forall>r\<in>set rs. isl r then worker_var m' = Undefined
      else \<exists>k. last (filter (\<lambda>r. \<not> isl r) rs) = Inr (Object k) \<and> worker_var m' = Object k)"
proof -
  have len: "length rs = length sites"
    using run_state [OF assms] by simp
  show ?thesis
  proof (cases "\<forall>r\<in>set rs. isl r")
    case True
    then have "m' = module_init" using run_state [OF assms] by simp
    then show ?thesis using True len by (simp add: module_init_def)
  next
    case False
    then obtain k where "last (filter (\<lambda>r. \<not> isl r) rs) = Inr (Object k)"
      and "m' = module_init\<lparr>worker_var := Object k\<rparr>"
      using run_state [OF assms] by (auto split: if_splits)
    then show ?thesis using False len by auto
  qed
qed

theorem remembered_handle_machine_witness:
  "run bounded_host own_url [site_a, site_b, site_a] (platform0, module_init) =
     ([Inr (Object 0), Inr (Object 1), Inl ''QuotaExceededError''],
      (platform3, \<lparr>worker_var = Object 1\<rparr>))
   \<and> length [Inr (Object 0), Inr (Object 1), Inl ''QuotaExceededError'' :: string + js_value] =
       length [site_a, site_b, site_a]
   \<and> last (filter (\<lambda>r. \<not> isl r)
        [Inr (Object 0), Inr (Object 1), Inl ''QuotaExceededError'' :: string + js_value]) =
       Inr (Object 1)
   \<and> worker_var \<lparr>worker_var = Object 1\<rparr> = Object 1"
  using remembered_handle_machine [OF bounded_run] bounded_run
  by simp

text \<open>
  The claim as it was stated has every call enter the second state. On a host that
  refuses the worker, the module variable is still \<open>undefined\<close> after a call.
\<close>

theorem failing_call_stays_in_first_state:
  "run refusing_host own_url [site_a] (platform0, module_init) =
     ([Inl ''SecurityError''], (platform_refused, \<lparr>worker_var = Undefined\<rparr>))"
  by (simp add: startWorker_outcome refusing_host_def sample_url sample_states)

subsection \<open>What a call leaves alone\<close>

text \<open>
  Claim C8. A call changes no variable of the program but the module variable
  \<open>_worker\<close>, which ends as the handle returned, or as it was when the call throws. The
  state of the host after the call is the state in which the invocation of the \<open>Worker\<close>
  constructor left it (or the state before, when \<open>new URL\<close> throws): the workers and
  the invocations that were there before are still there, unchanged.
\<close>

theorem startWorker_frame:
  assumes "startWorker h meta_url site (p, m) = (r, (p', m'))"
  shows "module_state.more m' = module_state.more m
       \<and> m' = m\<lparr>worker_var := worker_var m'\<rparr>
       \<and> worker_var m' = (case r of Inl e \<Rightarrow> worker_var m | Inr w \<Rightarrow> w)
       \<and> take (length (heap p)) (heap p') = heap p
       \<and> take (length (requests p)) (requests p') = requests p
       \<and> p' = (case URL_new h ''./web_worker_module.js'' meta_url of
                 Inl e \<Rightarrow> p
               | Inr u \<Rightarrow> snd (new_Worker h u \<lparr>type = ''module'', name = ''wasm_thread''\<rparr> p))"
  using assms
  by (auto simp: startWorker_def new_Worker_def Let_def split: sum.splits option.splits)

theorem startWorker_frame_witness:
  "startWorker willing_host own_url site_a (platform0, \<lparr>worker_var = Null, \<dots> = (42::nat)\<rparr>) =
     (Inr (Object 0), (platform1, \<lparr>worker_var = Object 0, \<dots> = (42::nat)\<rparr>))
   \<and> module_state.more \<lparr>worker_var = Object 0, \<dots> = (42::nat)\<rparr> = 42
   \<and> take (length (heap platform0)) (heap platform1) = heap platform0
   \<and> take (length (requests platform0)) (requests platform1) = requests platform0
   \<and> platform1 = snd (new_Worker willing_host ''https://app.example/pkg/web_worker_module.js''
                        \<lparr>type = ''module'', name = ''wasm_thread''\<rparr> platform0)"
  using startWorker_frame [OF willing_first_extended] willing_first_extended
  by (simp add: sample_states willing_host_def sample_url)

subsection \<open>No input from the caller\<close>

text \<open>
  Claim C9. The function has no parameter, and a call does the same from every call
  site, whatever the arguments: the path, the type and the name are constants of the
  function. What a call does is decided by the host alone. Where \<open>new URL\<close> throws, the
  call throws that failure and changes nothing. Where the \<open>Worker\<close> constructor throws,
  the call throws that failure, and only the invocation is added to the state. Otherwise
  the call returns a worker handle: the reference of the object just allocated with the
  constant options, which it has stored.
\<close>

theorem startWorker_ignores_call_site:
  "startWorker h meta_url site (p, m) = startWorker h meta_url site' (p, m)
   \<and> (case URL_new h ''./web_worker_module.js'' meta_url of
        Inl e \<Rightarrow> startWorker h meta_url site (p, m) = (Inl e, (p, m))
      | Inr u \<Rightarrow>
          (case Worker_refuses h p u \<lparr>type = ''module'', name = ''wasm_thread''\<rparr> of
             Some e \<Rightarrow>
               startWorker h meta_url site (p, m) =
                 (Inl e,
                  (p\<lparr>requests :=
                       requests p @ [(u, \<lparr>type = ''module'', name = ''wasm_thread''\<rparr>)]\<rparr>,
                   m))
           | None \<Rightarrow>
               startWorker h meta_url site (p, m) =
                 (Inr (Object (length (heap p))),
                  (p\<lparr>requests :=
                       requests p @ [(u, \<lparr>type = ''module'', name = ''wasm_thread''\<rparr>)],
                     heap := heap p @ [\<lparr>scriptURL = u,
                                         options = \<lparr>type = ''module'', name = ''wasm_thread''\<rparr>,
                                         terminated = False\<rparr>]\<rparr>,
                   m\<lparr>worker_var := Object (length (heap p))\<rparr>))))"
proof -
  have "startWorker h meta_url site (p, m) = startWorker h meta_url site' (p, m)"
    by (simp add: startWorker_def)
  then show ?thesis
    by (simp add: startWorker_outcome split: sum.split option.split)
qed

theorem startWorker_ignores_call_site_witness:
  "startWorker willing_host own_url site_a (platform0, module_init) =
     startWorker willing_host own_url site_b (platform0, module_init)
   \<and> startWorker willing_host own_url site_a (platform0, module_init) =
       (Inr (Object 0), (platform1, \<lparr>worker_var = Object 0\<rparr>))
   \<and> startWorker bounded_host own_url site_b (platform2, \<lparr>worker_var = Object 1\<rparr>) =
       (Inl ''QuotaExceededError'', (platform3, \<lparr>worker_var = Object 1\<rparr>))
   \<and> startWorker willing_host ''nowhere'' site_a (platform0, module_init) =
       (Inl ''TypeError'', (platform0, module_init))"
proof -
  note at_willing =
    startWorker_ignores_call_site
      [where h = willing_host and meta_url = own_url and site = site_a and site' = site_b
         and p = platform0 and m = module_init]
  note at_bounded =
    startWorker_ignores_call_site
      [where h = bounded_host and meta_url = own_url and site = site_b and site' = site_a
         and p = platform2 and m = "\<lparr>worker_var = Object 1\<rparr>"]
  note at_nowhere =
    startWorker_ignores_call_site
      [where h = willing_host and meta_url = "''nowhere''" and site = site_a
         and site' = site_b and p = platform0 and m = module_init]
  have same:
    "startWorker willing_host own_url site_a (platform0, module_init) =
       startWorker willing_host own_url site_b (platform0, module_init)"
    using conjunct1 [OF at_willing] .
  have returns:
    "startWorker willing_host own_url site_a (platform0, module_init) =
       (Inr (Object 0), (platform1, \<lparr>worker_var = Object 0\<rparr>))"
    using conjunct2 [OF at_willing]
    by (simp add: willing_URL_new willing_accepts) (simp add: sample_states)
  have refused:
    "startWorker bounded_host own_url site_b (platform2, \<lparr>worker_var = Object 1\<rparr>) =
       (Inl ''QuotaExceededError'', (platform3, \<lparr>worker_var = Object 1\<rparr>))"
    using conjunct2 [OF at_bounded]
    by (simp add: bounded_URL_new bounded_refuses) (simp add: sample_states)
  have unresolved:
    "startWorker willing_host ''nowhere'' site_a (platform0, module_init) =
       (Inl ''TypeError'', (platform0, module_init))"
    using conjunct2 [OF at_nowhere]
    by (simp add: nowhere_URL_new)
  show ?thesis
    using same returns refused unresolved by (intro conjI)
qed

subsection \<open>The module variable is private\<close>

text \<open>
  Claim C10. Importing \<open>_worker\<close> from the module gives nothing, and whatever can be
  imported is \<open>startWorker\<close>. A call of \<open>startWorker\<close> does not read the module variable:
  with any other value stored, the call has the same outcome, leaves the host in the
  same state, and ends with the same value stored when it returns (with the other value
  when it throws). What a returning call stores is the reference of the worker that it
  has just allocated. The workers allocated before a call, the one stored among them,
  are as they were after it: none is terminated or replaced.
\<close>

theorem worker_var_is_private:
  "import_binding h meta_url ''_worker'' = None
   \<and> (\<forall>x f. import_binding h meta_url x = Some f
          \<longrightarrow> x = ''startWorker'' \<and> f = startWorker h meta_url)
   \<and> fst (startWorker h meta_url site (p, m\<lparr>worker_var := v\<rparr>)) =
       fst (startWorker h meta_url site (p, m))
   \<and> fst (snd (startWorker h meta_url site (p, m\<lparr>worker_var := v\<rparr>))) =
       fst (snd (startWorker h meta_url site (p, m)))
   \<and> snd (snd (startWorker h meta_url site (p, m\<lparr>worker_var := v\<rparr>))) =
       (if isl (fst (startWorker h meta_url site (p, m))) then m\<lparr>worker_var := v\<rparr>
        else snd (snd (startWorker h meta_url site (p, m))))
   \<and> (\<not> isl (fst (startWorker h meta_url site (p, m)))
        \<longrightarrow> worker_var (snd (snd (startWorker h meta_url site (p, m)))) =
              Object (length (heap p)))
   \<and> take (length (heap p)) (heap (fst (snd (startWorker h meta_url site (p, m))))) = heap p"
  by (auto simp: import_binding_def startWorker_outcome split: sum.splits option.splits if_splits)

theorem worker_var_is_private_witness:
  "import_binding willing_host own_url ''_worker'' =
     (None :: (call_site \<Rightarrow> string platform \<times> module_state
                 \<Rightarrow> (string + js_value) \<times> (string platform \<times> module_state)) option)
   \<and> import_binding willing_host own_url ''startWorker'' =
       Some (startWorker willing_host own_url
               :: call_site \<Rightarrow> string platform \<times> module_state
                    \<Rightarrow> (string + js_value) \<times> (string platform \<times> module_state))
   \<and> startWorker willing_host own_url site_a (platform0, module_init\<lparr>worker_var := Object 5\<rparr>) =
       startWorker willing_host own_url site_a (platform0, module_init)
   \<and> worker_var (snd (snd (startWorker willing_host own_url site_a (platform0, module_init)))) =
       Object (length (heap platform0))
   \<and> take (length (heap platform0)) (heap platform1) = heap platform0"
  using worker_var_is_private
      [where h = willing_host and meta_url = own_url and site = site_a and p = platform0
         and m = module_init and v = "Object 5"]
    willing_first
  by (auto simp add: import_binding_def sample_states prod_eq_iff)


end
